theory Spec2Isabelle
  imports Complex_Main
begin

section \<open>The GPS odometry node\<close>

text \<open>
  The node receives stamped poses, runs them through a Kalman filter that it owns, and
  publishes a global odometry message, an optional transform, a local odometry message and
  a pose relay. The source is \<^verbatim>\<open>src/gps_odom_old.cpp\<close>; the embedding follows
  \<^verbatim>\<open>gpsOdom::gpsOdom\<close>,
  \<^verbatim>\<open>gpsOdom::gpsCallback\<close>, \<^verbatim>\<open>gpsOdom::PublishTransform\<close>
  and \<^verbatim>\<open>main\<close> statement by statement.

  Conventions of the embedding:
  \<^item> a C++ \<^verbatim>\<open>double\<close> is a \<^typ>\<open>real\<close>: rounding, infinities and NaN are
    outside the model, and \<^verbatim>\<open>1e-6\<close> is the rational \<open>1 / 1000000\<close>;
  \<^item> fixed-size Eigen vectors and matrices are lists (of rows, for a matrix) whose
    lengths the Eigen type fixes; \<open>M(i, j)\<close> is \<open>M ! i ! j\<close>;
  \<^item> the function-local \<^verbatim>\<open>static\<close> variables of \<^verbatim>\<open>gpsCallback\<close> live in
    one record per process, passed to and returned by every call whichever node makes it;
  \<^item> the members of the node are a record passed to and returned by the callback;
  \<^item> the Kalman filter class is declared outside this file: its operations are a
    parameter of every function that calls them.
\<close>

subsection \<open>Messages\<close>

text \<open>\<^verbatim>\<open>ros::Time\<close>: seconds and nanoseconds, both unsigned.\<close>

record ros_Time =
  sec :: nat
  nsec :: nat

text \<open>
  \<^verbatim>\<open>(a - b).toSec()\<close>: the difference of two stamps as a duration in seconds.
  The 32-bit range of \<^verbatim>\<open>ros::Duration\<close> is not modelled.
\<close>

definition diff_toSec :: "ros_Time \<Rightarrow> ros_Time \<Rightarrow> real" where
  "diff_toSec a b =
     real_of_int (int (sec a) - int (sec b))
     + real_of_int (int (nsec a) - int (nsec b)) / 1000000000"

record Header =
  seq :: nat
  stamp :: ros_Time
  frame_id :: string

text \<open>\<^verbatim>\<open>geometry_msgs::Point\<close> and \<^verbatim>\<open>geometry_msgs::Vector3\<close>: three doubles.\<close>

record Point =
  x :: real
  y :: real
  z :: real

type_synonym Vector3 = Point

record Quaternion =
  qx :: real
  qy :: real
  qz :: real
  qw :: real

record Pose =
  position :: Point
  orientation :: Quaternion

record PoseStamped =
  header :: Header
  pose :: Pose

record PoseWithCovariance =
  pwc_pose :: Pose
  pwc_covariance :: "real list"

record Twist =
  linear :: Vector3
  angular :: Vector3

record TwistWithCovariance =
  twc_twist :: Twist
  twc_covariance :: "real list"

record Odometry =
  odom_header :: Header
  odom_child_frame_id :: string
  odom_pose :: PoseWithCovariance
  odom_twist :: TwistWithCovariance

record Transform =
  translation :: Vector3
  rotation :: Quaternion

record TransformStamped =
  tf_header :: Header
  tf_child_frame_id :: string
  transform :: Transform

text \<open>
  The default constructors of the generated message classes: every number is zero, every
  string is empty, and a covariance is an array of 36 zeros.
\<close>

definition Point0 :: Point where
  "Point0 = \<lparr>x = 0, y = 0, z = 0\<rparr>"

definition Quaternion0 :: Quaternion where
  "Quaternion0 = \<lparr>qx = 0, qy = 0, qz = 0, qw = 0\<rparr>"

definition Header0 :: Header where
  "Header0 = \<lparr>seq = 0, stamp = \<lparr>sec = 0, nsec = 0\<rparr>, frame_id = []\<rparr>"

definition Pose0 :: Pose where
  "Pose0 = \<lparr>position = Point0, orientation = Quaternion0\<rparr>"

definition Odometry0 :: Odometry where
  "Odometry0 =
     \<lparr>odom_header = Header0, odom_child_frame_id = [],
      odom_pose = \<lparr>pwc_pose = Pose0, pwc_covariance = replicate 36 0\<rparr>,
      odom_twist = \<lparr>twc_twist = \<lparr>linear = Point0, angular = Point0\<rparr>,
                    twc_covariance = replicate 36 0\<rparr>\<rparr>"

definition PoseStamped0 :: PoseStamped where
  "PoseStamped0 = \<lparr>header = Header0, pose = Pose0\<rparr>"

subsection \<open>Eigen\<close>

type_synonym Matrix3d = "real list list"

definition Identity3 :: Matrix3d where
  "Identity3 = [ [1, 0, 0], [0, 1, 0], [0, 0, 1] ]"

text \<open>
  \<^verbatim>\<open>Eigen::Matrix3d R(Eigen::Quaterniond(w, x, y, z))\<close>: the conversion of a
  quaternion to a rotation matrix, with Eigen's intermediate names. The quaternion is not
  normalised.
\<close>

definition toRotationMatrix :: "Quaternion \<Rightarrow> Matrix3d" where
  "toRotationMatrix q =
     (let tx = 2 * qx q; ty = 2 * qy q; tz = 2 * qz q;
          twx = tx * qw q; twy = ty * qw q; twz = tz * qw q;
          txx = tx * qx q; txy = ty * qx q; txz = tz * qx q;
          tyy = ty * qy q; tyz = tz * qy q; tzz = tz * qz q
      in [ [1 - (tyy + tzz), txy - twz, txz + twy],
          [txy + twz, 1 - (txx + tzz), tyz - twx],
          [txz - twy, tyz + twx, 1 - (txx + tyy)] ])"

definition mat_minus :: "Matrix3d \<Rightarrow> Matrix3d \<Rightarrow> Matrix3d" where
  "mat_minus A B = map2 (map2 (-)) A B"

definition mat_div :: "Matrix3d \<Rightarrow> real \<Rightarrow> Matrix3d" where
  "mat_div A d = map (map (\<lambda>a. a / d)) A"

definition mat_transpose :: "Matrix3d \<Rightarrow> Matrix3d" where
  "mat_transpose A = map (\<lambda>j. map (\<lambda>row. row ! j) A) [0..<3]"

definition mat_times :: "Matrix3d \<Rightarrow> Matrix3d \<Rightarrow> Matrix3d" where
  "mat_times A B =
     map (\<lambda>row. map (\<lambda>col. sum_list (map2 (*) row col)) (mat_transpose B)) A"

subsection \<open>The Kalman filter interface\<close>

text \<open>
  The class \<^verbatim>\<open>KalmanFilter\<close> is declared in a header that is not part of the
  source file. Its operations are taken as a parameter: a filter object is a value of
  type \<^typ>\<open>'kf\<close>, and an operation that mutates the object returns the new one.
  \<^verbatim>\<open>State_t\<close> is a 6-vector, \<^verbatim>\<open>Measurement_t\<close> a 3-vector,
  \<^verbatim>\<open>ProcessCov_t\<close> a 6x6 matrix.
\<close>

record 'kf KalmanFilter =
  kf_new :: 'kf
  initialize :: "real list \<Rightarrow> real list list \<Rightarrow> real list list \<Rightarrow> real list list \<Rightarrow> 'kf \<Rightarrow> 'kf"
  processUpdate :: "real \<Rightarrow> 'kf \<Rightarrow> 'kf"
  measurementUpdate :: "real list \<Rightarrow> real \<Rightarrow> 'kf \<Rightarrow> 'kf"
  getState :: "'kf \<Rightarrow> real list"
  getProcessNoise :: "'kf \<Rightarrow> real list list"

subsection \<open>The node and the state of the callback\<close>

text \<open>
  The members \<^verbatim>\<open>kf_\<close>, \<^verbatim>\<open>initPose_\<close>, \<^verbatim>\<open>publish_tf_\<close> and
  \<^verbatim>\<open>child_frame_id_\<close> of the class, named without the trailing underscore.
\<close>

record 'kf gpsOdom =
  kf :: 'kf
  initPose :: PoseStamped
  publish_tf :: bool
  child_frame_id :: string

text \<open>
  The three \<^verbatim>\<open>static\<close> locals of \<^verbatim>\<open>gpsCallback\<close>. A stamp is \<open>None\<close> until
  control first passes its declaration, which initialises it from the message of that
  call; \<^verbatim>\<open>R_prev\<close> is initialised to the identity.
\<close>

record callback_statics =
  t_last_proc :: "ros_Time option"
  t_last_meas :: "ros_Time option"
  R_prev :: Matrix3d

definition statics_init :: callback_statics where
  "statics_init = \<lparr>t_last_proc = None, t_last_meas = None, R_prev = Identity3\<rparr>"

text \<open>What one call of the callback hands to its publishers, in the order of the calls.\<close>

record published =
  odom_pub :: Odometry
  tf_broadcast :: "TransformStamped option"
  localOdom_pub :: Odometry
  mocap_pub :: PoseStamped

record 'kf callback_result =
  statics_out :: callback_statics
  node_out :: "'kf gpsOdom"
  messages_out :: published

subsection \<open>Field access into the nested messages\<close>

text \<open>
  \<^verbatim>\<open>m.pose.pose.position\<close>, \<^verbatim>\<open>m.pose.pose.orientation\<close>,
  \<^verbatim>\<open>m.twist.twist.linear\<close>, \<^verbatim>\<open>m.twist.twist.angular\<close> and the two
  covariance arrays of an odometry message, read and assigned.
\<close>

definition odom_position :: "Odometry \<Rightarrow> Point" where
  "odom_position m = position (pwc_pose (odom_pose m))"

definition odom_orientation :: "Odometry \<Rightarrow> Quaternion" where
  "odom_orientation m = orientation (pwc_pose (odom_pose m))"

definition odom_linear :: "Odometry \<Rightarrow> Vector3" where
  "odom_linear m = linear (twc_twist (odom_twist m))"

definition odom_angular :: "Odometry \<Rightarrow> Vector3" where
  "odom_angular m = angular (twc_twist (odom_twist m))"

definition odom_pose_covariance :: "Odometry \<Rightarrow> real list" where
  "odom_pose_covariance m = pwc_covariance (odom_pose m)"

definition odom_twist_covariance :: "Odometry \<Rightarrow> real list" where
  "odom_twist_covariance m = twc_covariance (odom_twist m)"

definition set_position :: "Point \<Rightarrow> Odometry \<Rightarrow> Odometry" where
  "set_position p m =
     m\<lparr>odom_pose := (odom_pose m)\<lparr>pwc_pose := (pwc_pose (odom_pose m))\<lparr>position := p\<rparr>\<rparr>\<rparr>"

definition set_orientation :: "Quaternion \<Rightarrow> Odometry \<Rightarrow> Odometry" where
  "set_orientation q m =
     m\<lparr>odom_pose := (odom_pose m)\<lparr>pwc_pose := (pwc_pose (odom_pose m))\<lparr>orientation := q\<rparr>\<rparr>\<rparr>"

definition set_linear :: "Vector3 \<Rightarrow> Odometry \<Rightarrow> Odometry" where
  "set_linear v m =
     m\<lparr>odom_twist := (odom_twist m)\<lparr>twc_twist := (twc_twist (odom_twist m))\<lparr>linear := v\<rparr>\<rparr>\<rparr>"

definition set_angular :: "Vector3 \<Rightarrow> Odometry \<Rightarrow> Odometry" where
  "set_angular v m =
     m\<lparr>odom_twist := (odom_twist m)\<lparr>twc_twist := (twc_twist (odom_twist m))\<lparr>angular := v\<rparr>\<rparr>\<rparr>"

subsection \<open>gpsCallback\<close>

text \<open>
  The body of the two nested loops: one entry of each covariance array is written.
  The index \<open>6 * i + j\<close> is at most 14, inside the 36 entries.
\<close>

definition cov_assign :: "real list list \<Rightarrow> nat \<Rightarrow> nat \<Rightarrow> Odometry \<Rightarrow> Odometry" where
  "cov_assign proc_noise i j m =
     m\<lparr>odom_pose := (odom_pose m)
          \<lparr>pwc_covariance := (pwc_covariance (odom_pose m))[6 * i + j := proc_noise ! i ! j]\<rparr>,
       odom_twist := (odom_twist m)
          \<lparr>twc_covariance :=
             (twc_covariance (odom_twist m))[6 * i + j := proc_noise ! (3 + i) ! (3 + j)]\<rparr>\<rparr>"

definition cov_loops :: "real list list \<Rightarrow> Odometry \<Rightarrow> Odometry" where
  "cov_loops proc_noise m =
     fold (\<lambda>i. fold (\<lambda>j. cov_assign proc_noise i j) [0..<3]) [0..<3] m"

text \<open>
  The two time steps, \<^verbatim>\<open>dt\<close> and \<^verbatim>\<open>meas_dt\<close> of the source. Each reads its
  own static: on the call that initialises the static the previous stamp is the stamp of
  the message itself.
\<close>

definition proc_dt :: "callback_statics \<Rightarrow> PoseStamped \<Rightarrow> real" where
  "proc_dt g msg =
     diff_toSec (stamp (header msg))
       (case t_last_proc g of None \<Rightarrow> stamp (header msg) | Some t \<Rightarrow> t)"

definition meas_dt_of :: "callback_statics \<Rightarrow> PoseStamped \<Rightarrow> real" where
  "meas_dt_of g msg =
     diff_toSec (stamp (header msg))
       (case t_last_meas g of None \<Rightarrow> stamp (header msg) | Some t \<Rightarrow> t)"

text \<open>
  The single-step differentiation: \<^verbatim>\<open>R_dot\<close> and \<^verbatim>\<open>w_hat\<close> of the guarded
  block, from the current rotation, the previous one and the time step.
\<close>

definition w_hat_of :: "Matrix3d \<Rightarrow> Matrix3d \<Rightarrow> real \<Rightarrow> Matrix3d" where
  "w_hat_of R Rp dt =
     (let R_dot = mat_div (mat_minus R Rp) dt
      in mat_times R_dot (mat_transpose R))"

definition PublishTransform :: "Pose \<Rightarrow> Header \<Rightarrow> string \<Rightarrow> TransformStamped" where
  "PublishTransform p h child =
     (let translation = \<lparr>x = x (position p), y = y (position p), z = z (position p)\<rparr>
      in \<lparr>tf_header = h, tf_child_frame_id = child,
          transform = \<lparr>translation = translation, rotation = orientation p\<rparr>\<rparr>)"

text \<open>
  The callback, with the local constant \<^verbatim>\<open>hypothesis_test_threshold\<close> as an
  argument so that its use can be stated; \<open>gpsCallback\<close> below passes the constant of
  the source.
\<close>

definition gpsCallback_thr ::
  "'kf KalmanFilter \<Rightarrow> real \<Rightarrow> callback_statics \<Rightarrow> 'kf gpsOdom \<Rightarrow> PoseStamped
     \<Rightarrow> 'kf callback_result" where
  "gpsCallback_thr K hypothesis_test_threshold g this msg =
     (let dt = proc_dt g msg;
          g1 = g\<lparr>t_last_proc := Some (stamp (header msg))\<rparr>;
          kf1 = processUpdate K dt (kf this);
          meas = [x (position (pose msg)), y (position (pose msg)), z (position (pose msg))];
          proc_noise_apriori = getProcessNoise K kf1;
          xbar = getState K kf1;
          meas_dt = meas_dt_of g1 msg;
          g2 = g1\<lparr>t_last_meas := Some (stamp (header msg))\<rparr>;
          kf2 = measurementUpdate K meas meas_dt kf1;
          state = getState K kf2;
          proc_noise = getProcessNoise K kf2;
          m1 = Odometry0\<lparr>odom_header := header msg\<rparr>;
          m2 = m1\<lparr>odom_child_frame_id := frame_id (header msg)\<rparr>;
          m3 = set_position \<lparr>x = state ! 0, y = state ! 1, z = state ! 2\<rparr> m2;
          m4 = set_linear \<lparr>x = state ! 3, y = state ! 4, z = state ! 5\<rparr> m3;
          m5 = cov_loops proc_noise m4;
          m6 = set_orientation (orientation (pose msg)) m5;
          R = toRotationMatrix (orientation (pose msg));
          odom_msg =
            (if dt > 1 / 1000000
             then (let w_hat = w_hat_of R (R_prev g2) dt
                   in set_angular \<lparr>x = w_hat ! 2 ! 1, y = w_hat ! 0 ! 2, z = w_hat ! 1 ! 0\<rparr> m6)
             else m6);
          g3 = g2\<lparr>R_prev := R\<rparr>;
          tf = (if publish_tf this
                then Some (PublishTransform (pwc_pose (odom_pose odom_msg))
                             (odom_header odom_msg) (child_frame_id this))
                else None);
          localOdom_msg =
            set_position
              \<lparr>x = x (odom_position odom_msg) - x (position (pose (initPose this))),
               y = y (odom_position odom_msg) - y (position (pose (initPose this))),
               z = z (odom_position odom_msg) - z (position (pose (initPose this)))\<rparr>
              odom_msg;
          p1 = PoseStamped0\<lparr>pose := (pose PoseStamped0)
                 \<lparr>position := \<lparr>x = x (position (pose msg)), y = y (position (pose msg)),
                                z = z (position (pose msg))\<rparr>\<rparr>\<rparr>;
          p2 = p1\<lparr>pose := (pose p1)\<lparr>orientation := orientation (pose msg)\<rparr>\<rparr>;
          p3 = p2\<lparr>header := header msg\<rparr>;
          mocap_msg = p3\<lparr>header := (header p3)\<lparr>frame_id := ''fcu''\<rparr>\<rparr>
      in \<lparr>statics_out = g3,
          node_out = this\<lparr>kf := kf2\<rparr>,
          messages_out = \<lparr>odom_pub = odom_msg, tf_broadcast = tf,
                          localOdom_pub = localOdom_msg, mocap_pub = mocap_msg\<rparr>\<rparr>)"

definition hypothesis_test_threshold :: real where
  "hypothesis_test_threshold = 0.5"

definition gpsCallback ::
  "'kf KalmanFilter \<Rightarrow> callback_statics \<Rightarrow> 'kf gpsOdom \<Rightarrow> PoseStamped \<Rightarrow> 'kf callback_result" where
  "gpsCallback K g this msg = gpsCallback_thr K hypothesis_test_threshold g this msg"

subsection \<open>The constructor\<close>

text \<open>
  The parameter server, reduced to the four parameters the constructor reads with
  \<^verbatim>\<open>nh.param(name, variable, default)\<close>: a parameter that is not set is \<open>None\<close>.
\<close>

record ros_params =
  max_accel_param :: "real option"
  publish_tf_param :: "bool option"
  child_frame_id_param :: "string option"
  gps_fps_param :: "real option"

definition param :: "'a option \<Rightarrow> 'a \<Rightarrow> 'a" where
  "param p dflt = (case p of None \<Rightarrow> dflt | Some v \<Rightarrow> v)"

text \<open>
  The two ways the constructor does not return: the \<^verbatim>\<open>std::runtime_error\<close> it
  throws, and a failed \<^verbatim>\<open>ROS_ASSERT\<close>, which aborts the process when assertions are
  compiled in.
\<close>

datatype startup_failure = runtime_error string | assertion_failed

definition asDiagonal :: "real list \<Rightarrow> real list list" where
  "asDiagonal v =
     map (\<lambda>i. map (\<lambda>j. if i = j then v ! i else 0) [0..<length v]) [0..<length v]"

definition Identity6 :: "real list list" where
  "Identity6 = map (\<lambda>i. map (\<lambda>j. if i = j then 1 else 0) [0..<6]) [0..<(6::nat)]"

definition scale :: "real \<Rightarrow> real list list \<Rightarrow> real list list" where
  "scale c M = map (map (\<lambda>a. c * a)) M"

text \<open>\<^verbatim>\<open>v.array().square()\<close>: every coefficient multiplied by itself.\<close>

definition array_square :: "real list \<Rightarrow> real list" where
  "array_square v = map (\<lambda>a. a * a) v"

text \<open>
  The noise vectors handed to the filter, as the constructor builds them from
  \<^verbatim>\<open>max_accel\<close> and \<^verbatim>\<open>dt\<close>.
\<close>

definition proc_noise_diag :: "real \<Rightarrow> real \<Rightarrow> real list" where
  "proc_noise_diag max_accel dt =
     array_square
       [0.5 * max_accel * dt * dt, 0.5 * max_accel * dt * dt, 0.5 * max_accel * dt * dt,
        max_accel * dt, max_accel * dt, max_accel * dt]"

definition meas_noise_diag :: "real list" where
  "meas_noise_diag = array_square [1 / 100, 1 / 100, 1 / 100]"

text \<open>
  The constructor. \<open>asserts\<close> says whether \<^verbatim>\<open>ROS_ASSERT\<close> is compiled in. The first
  message is the one \<^verbatim>\<open>waitForMessage\<close> returns; the wait itself, the logging and
  the registration of publishers and subscriber are not modelled. With assertions compiled
  out and \<^verbatim>\<open>gps_fps\<close> zero the C++ \<^verbatim>\<open>dt\<close> is infinite, which the reals do not
  have: nothing is stated about that input.
\<close>

definition gpsOdom_ctor ::
  "'kf KalmanFilter \<Rightarrow> bool \<Rightarrow> ros_params \<Rightarrow> PoseStamped \<Rightarrow> startup_failure + 'kf gpsOdom" where
  "gpsOdom_ctor K asserts params first_msg =
     (let initPose = first_msg;
          max_accel = param (max_accel_param params) 5.0;
          publish_tf = param (publish_tf_param params) True;
          child_frame_id = param (child_frame_id_param params) ''base_link''
      in if publish_tf \<and> child_frame_id = []
         then Inl (runtime_error ''gps_odom: child_frame_id required for publishing tf'')
         else (let gps_fps = param (gps_fps_param params) 20.0
               in if asserts \<and> \<not> gps_fps > 0.0 then Inl assertion_failed
                  else (let dt = 1.0 / gps_fps;
                            initStates = [x (position (pose initPose)),
                                          y (position (pose initPose)),
                                          z (position (pose initPose)), 0.0, 0.0, 0.0];
                            kf = initialize K initStates (scale 1.0 Identity6)
                                   (asDiagonal (proc_noise_diag max_accel dt))
                                   (asDiagonal meas_noise_diag) (kf_new K)
                        in Inr \<lparr>kf = kf, initPose = initPose, publish_tf = publish_tf,
                                child_frame_id = child_frame_id\<rparr>)))"

subsection \<open>main\<close>

text \<open>
  \<^verbatim>\<open>ros::spin()\<close> delivers the queued messages to the callback one after the other
  and returns at shutdown: here, after the finite list of messages it is given.
\<close>

fun spin ::
  "'kf KalmanFilter \<Rightarrow> callback_statics \<Rightarrow> 'kf gpsOdom \<Rightarrow> PoseStamped list \<Rightarrow> published list" where
  "spin K g this [] = []"
| "spin K g this (msg # msgs) =
     (let r = gpsCallback K g this msg
      in messages_out r # spin K (statics_out r) (node_out r) msgs)"

datatype exit_status = Returned int | Aborted

definition main ::
  "'kf KalmanFilter \<Rightarrow> bool \<Rightarrow> ros_params \<Rightarrow> PoseStamped \<Rightarrow> PoseStamped list
     \<Rightarrow> exit_status \<times> published list" where
  "main K asserts params first_msg msgs =
     (case gpsOdom_ctor K asserts params first_msg of
        Inl (runtime_error e) \<Rightarrow> (Returned 1, [])
      | Inl assertion_failed \<Rightarrow> (Aborted, [])
      | Inr gps_odom \<Rightarrow> (Returned 0, spin K statics_init gps_odom msgs))"

subsection \<open>Several nodes in one process\<close>

text \<open>
  A process that holds several node objects, numbered, and delivers each message to the
  callback of the node it is addressed to. The statics are those of the one function
  \<^verbatim>\<open>gpsOdom::gpsCallback\<close>, whichever object it is called on.
\<close>

fun run_process ::
  "'kf KalmanFilter \<Rightarrow> callback_statics \<Rightarrow> (nat \<Rightarrow> 'kf gpsOdom) \<Rightarrow> (nat \<times> PoseStamped) list
     \<Rightarrow> (nat \<times> published) list" where
  "run_process K g nodes [] = []"
| "run_process K g nodes ((i, msg) # events) =
     (let r = gpsCallback K g (nodes i) msg
      in (i, messages_out r) # run_process K (statics_out r) (nodes(i := node_out r)) events)"

definition outputs_of :: "nat \<Rightarrow> (nat \<times> 'a) list \<Rightarrow> 'a list" where
  "outputs_of i events = map snd (filter (\<lambda>e. fst e = i) events)"

text \<open>The statics after a sequence of calls, each by any node on any message.\<close>

fun statics_after ::
  "'kf KalmanFilter \<Rightarrow> callback_statics \<Rightarrow> ('kf gpsOdom \<times> PoseStamped) list \<Rightarrow> callback_statics" where
  "statics_after K g [] = g"
| "statics_after K g ((this, msg) # calls) =
     statics_after K (statics_out (gpsCallback K g this msg)) calls"

subsection \<open>A filter to run the node on concrete inputs\<close>

text \<open>
  An instance of the filter interface, used only where a statement is evaluated on
  concrete inputs; every general theorem below holds for all instances. The object keeps
  what \<^verbatim>\<open>initialize\<close> was given: the time update moves the position along the
  velocity, the measurement update overwrites the position with the measurement.
\<close>

record demo_kf =
  kf_state :: "real list"
  kf_cov :: "real list list"
  kf_proc_noise :: "real list list"
  kf_meas_noise :: "real list list"

definition demo_processUpdate :: "real \<Rightarrow> demo_kf \<Rightarrow> demo_kf" where
  "demo_processUpdate dt k =
     k\<lparr>kf_state := [kf_state k ! 0 + dt * kf_state k ! 3, kf_state k ! 1 + dt * kf_state k ! 4,
                     kf_state k ! 2 + dt * kf_state k ! 5,
                     kf_state k ! 3, kf_state k ! 4, kf_state k ! 5]\<rparr>"

definition demo_measurementUpdate :: "real list \<Rightarrow> real \<Rightarrow> demo_kf \<Rightarrow> demo_kf" where
  "demo_measurementUpdate zm dt k = k\<lparr>kf_state := zm @ drop 3 (kf_state k)\<rparr>"

definition demo_initialize ::
  "real list \<Rightarrow> real list list \<Rightarrow> real list list \<Rightarrow> real list list \<Rightarrow> demo_kf \<Rightarrow> demo_kf" where
  "demo_initialize x0 P0 Q R k =
     \<lparr>kf_state = x0, kf_cov = P0, kf_proc_noise = Q, kf_meas_noise = R\<rparr>"

definition demo_filter :: "demo_kf KalmanFilter" where
  "demo_filter =
     \<lparr>kf_new = \<lparr>kf_state = [], kf_cov = [], kf_proc_noise = [], kf_meas_noise = []\<rparr>,
      initialize = demo_initialize,
      processUpdate = demo_processUpdate,
      measurementUpdate = demo_measurementUpdate,
      getState = kf_state,
      getProcessNoise = kf_cov\<rparr>"

definition mk_msg :: "nat \<Rightarrow> nat \<Rightarrow> Point \<Rightarrow> Quaternion \<Rightarrow> PoseStamped" where
  "mk_msg s ns p q =
     \<lparr>header = \<lparr>seq = 0, stamp = \<lparr>sec = s, nsec = ns\<rparr>, frame_id = ''world''\<rparr>,
      pose = \<lparr>position = p, orientation = q\<rparr>\<rparr>"

text \<open>
  Four messages: the first with the identity orientation, the second one second later and
  turned about the vertical axis, the third with the stamp of the second, the fourth one
  second after the second with the identity orientation again.
\<close>

definition msg1 :: PoseStamped where
  "msg1 = mk_msg 0 0 \<lparr>x = 4, y = 5, z = 6\<rparr> \<lparr>qx = 0, qy = 0, qz = 0, qw = 1\<rparr>"

definition msg2 :: PoseStamped where
  "msg2 = mk_msg 1 0 \<lparr>x = 5, y = 5, z = 6\<rparr> \<lparr>qx = 0, qy = 0, qz = 4 / 5, qw = 3 / 5\<rparr>"

definition msg3 :: PoseStamped where
  "msg3 = mk_msg 1 0 \<lparr>x = 5, y = 6, z = 6\<rparr> \<lparr>qx = 0, qy = 0, qz = 4 / 5, qw = 3 / 5\<rparr>"

definition msg4 :: PoseStamped where
  "msg4 = mk_msg 2 0 \<lparr>x = 6, y = 6, z = 6\<rparr> \<lparr>qx = 0, qy = 0, qz = 0, qw = 1\<rparr>"

text \<open>A node whose filter holds a covariance with the entry \<open>10 * i + j\<close> at \<open>(i, j)\<close>.\<close>

definition demo_node :: "demo_kf gpsOdom" where
  "demo_node =
     \<lparr>kf = \<lparr>kf_state = [1, 2, 3, 0, 0, 0],
             kf_cov = map (\<lambda>i. map (\<lambda>j. real (10 * i + j)) [0..<6]) [0..<(6::nat)],
             kf_proc_noise = [], kf_meas_noise = []\<rparr>,
      initPose = mk_msg 0 0 \<lparr>x = 1, y = 2, z = 3\<rparr> \<lparr>qx = 0, qy = 0, qz = 0, qw = 1\<rparr>,
      publish_tf = True,
      child_frame_id = ''base_link''\<rparr>"

text \<open>Two nodes of one process, both built like \<open>demo_node\<close>.\<close>

definition demo_nodes :: "nat \<Rightarrow> demo_kf gpsOdom" where
  "demo_nodes i = demo_node"

text \<open>A parameter server on which nothing is set.\<close>

definition no_params :: ros_params where
  "no_params = \<lparr>max_accel_param = None, publish_tf_param = None,
                 child_frame_id_param = None, gps_fps_param = None\<rparr>"

section \<open>What one call of the callback computes\<close>

text \<open>
  The result of \<open>gpsCallback\<close> field by field: the filter object, the statics and each
  published message. The theorems of the following sections are read off these.
\<close>

lemma cov_loops_pose: "pwc_covariance (odom_pose (cov_loops P m)) =
  (pwc_covariance (odom_pose m))[0 := P!0!0, 1 := P!0!1, 2 := P!0!2, 6 := P!1!0, 7 := P!1!1, 8 := P!1!2, 12 := P!2!0, 13 := P!2!1, 14 := P!2!2]"
  by (simp add: cov_loops_def cov_assign_def upt_rec numeral_2_eq_2)

lemma cov_loops_twist: "twc_covariance (odom_twist (cov_loops P m)) =
  (twc_covariance (odom_twist m))[0 := P!3!3, 1 := P!3!4, 2 := P!3!5, 6 := P!4!3, 7 := P!4!4, 8 := P!4!5, 12 := P!5!3, 13 := P!5!4, 14 := P!5!5]"
  by (simp add: cov_loops_def cov_assign_def upt_rec numeral_2_eq_2)

lemma cov_loops_frame:
  "odom_header (cov_loops P m) = odom_header m"
  "odom_child_frame_id (cov_loops P m) = odom_child_frame_id m"
  "pwc_pose (odom_pose (cov_loops P m)) = pwc_pose (odom_pose m)"
  "twc_twist (odom_twist (cov_loops P m)) = twc_twist (odom_twist m)"
  by (simp_all add: cov_loops_def cov_assign_def upt_rec)

lemmas odom_fields =
  odom_position_def odom_orientation_def odom_linear_def odom_angular_def
  odom_pose_covariance_def odom_twist_covariance_def
  set_position_def set_orientation_def set_linear_def set_angular_def

lemmas callback_unfold = gpsCallback_def gpsCallback_thr_def Let_def odom_fields
  cov_loops_pose cov_loops_twist cov_loops_frame

lemma callback_kf:
  "kf (node_out (gpsCallback K g this msg)) =
     measurementUpdate K
       [x (position (pose msg)), y (position (pose msg)), z (position (pose msg))]
       (meas_dt_of g msg) (processUpdate K (proc_dt g msg) (kf this))"
  by (simp add: gpsCallback_def gpsCallback_thr_def Let_def meas_dt_of_def)

lemma callback_node_frame:
  "initPose (node_out (gpsCallback K g this msg)) = initPose this"
  "publish_tf (node_out (gpsCallback K g this msg)) = publish_tf this"
  "child_frame_id (node_out (gpsCallback K g this msg)) = child_frame_id this"
  by (simp_all add: gpsCallback_def gpsCallback_thr_def Let_def)

lemma callback_statics:
  "statics_out (gpsCallback K g this msg) =
     \<lparr>t_last_proc = Some (stamp (header msg)), t_last_meas = Some (stamp (header msg)),
      R_prev = toRotationMatrix (orientation (pose msg))\<rparr>"
  by (simp add: gpsCallback_def gpsCallback_thr_def Let_def)

lemma callback_odom_pose_covariance:
  "odom_pose_covariance (odom_pub (messages_out (gpsCallback K g this msg))) =
     (let P = getProcessNoise K (kf (node_out (gpsCallback K g this msg)))
      in (replicate 36 0)
       [0 := P!0!0, 1 := P!0!1, 2 := P!0!2, 6 := P!1!0, 7 := P!1!1, 8 := P!1!2,
        12 := P!2!0, 13 := P!2!1, 14 := P!2!2])"
  by (simp add: callback_unfold Odometry0_def meas_dt_of_def)

lemma callback_odom_twist_covariance:
  "odom_twist_covariance (odom_pub (messages_out (gpsCallback K g this msg))) =
     (let P = getProcessNoise K (kf (node_out (gpsCallback K g this msg)))
      in (replicate 36 0)
       [0 := P!3!3, 1 := P!3!4, 2 := P!3!5, 6 := P!4!3, 7 := P!4!4, 8 := P!4!5,
        12 := P!5!3, 13 := P!5!4, 14 := P!5!5])"
  by (simp add: callback_unfold Odometry0_def meas_dt_of_def)

lemma callback_odom_angular:
  "odom_angular (odom_pub (messages_out (gpsCallback K g this msg))) =
     (if proc_dt g msg > 1 / 1000000
      then (let w_hat = w_hat_of (toRotationMatrix (orientation (pose msg))) (R_prev g) (proc_dt g msg)
            in \<lparr>x = w_hat ! 2 ! 1, y = w_hat ! 0 ! 2, z = w_hat ! 1 ! 0\<rparr>)
      else Point0)"
  by (simp add: callback_unfold Odometry0_def)

lemma callback_odom_rest:
  "odom_header (odom_pub (messages_out (gpsCallback K g this msg))) = header msg"
  "odom_child_frame_id (odom_pub (messages_out (gpsCallback K g this msg))) = frame_id (header msg)"
  "odom_orientation (odom_pub (messages_out (gpsCallback K g this msg))) = orientation (pose msg)"
  "odom_position (odom_pub (messages_out (gpsCallback K g this msg))) =
     (let state = getState K (kf (node_out (gpsCallback K g this msg)))
      in \<lparr>x = state ! 0, y = state ! 1, z = state ! 2\<rparr>)"
  "odom_linear (odom_pub (messages_out (gpsCallback K g this msg))) =
     (let state = getState K (kf (node_out (gpsCallback K g this msg)))
      in \<lparr>x = state ! 3, y = state ! 4, z = state ! 5\<rparr>)"
  by (simp_all add: callback_unfold Odometry0_def meas_dt_of_def)

lemma callback_local:
  "localOdom_pub (messages_out (gpsCallback K g this msg)) =
     (let odom_msg = odom_pub (messages_out (gpsCallback K g this msg))
      in set_position
        \<lparr>x = x (odom_position odom_msg) - x (position (pose (initPose this))),
         y = y (odom_position odom_msg) - y (position (pose (initPose this))),
         z = z (odom_position odom_msg) - z (position (pose (initPose this)))\<rparr> odom_msg)"
  by (simp add: gpsCallback_def gpsCallback_thr_def Let_def)

lemma callback_mocap:
  "mocap_pub (messages_out (gpsCallback K g this msg)) =
     \<lparr>header = (header msg)\<lparr>frame_id := ''fcu''\<rparr>,
      pose = \<lparr>position = \<lparr>x = x (position (pose msg)), y = y (position (pose msg)),
                            z = z (position (pose msg))\<rparr>,
              orientation = orientation (pose msg)\<rparr>\<rparr>"
  by (simp add: gpsCallback_def gpsCallback_thr_def Let_def PoseStamped0_def Pose0_def)

lemma callback_tf:
  "tf_broadcast (messages_out (gpsCallback K g this msg)) =
     (if publish_tf this
      then Some (PublishTransform (pwc_pose (odom_pose (odom_pub (messages_out (gpsCallback K g this msg)))))
                   (header msg) (child_frame_id this))
      else None)"
  by (simp add: callback_unfold Odometry0_def)

lemma spin_nth_0:
  "spin K g this (msg # msgs) ! 0 = messages_out (gpsCallback K g this msg)"
  by (simp add: Let_def)

lemma spin_nth_Suc:
  "spin K g this (msg # msgs) ! Suc n
     = spin K (statics_out (gpsCallback K g this msg)) (node_out (gpsCallback K g this msg))
         msgs ! n"
  by (simp add: Let_def)

lemmas demo_defs = demo_filter_def demo_node_def demo_processUpdate_def
  demo_measurementUpdate_def demo_initialize_def mk_msg_def

lemmas mat_defs = toRotationMatrix_def w_hat_of_def mat_minus_def mat_div_def mat_times_def
  mat_transpose_def Identity3_def

section \<open>Angular velocity when the time step is at most 1e-6\<close>

text \<open>
  Claim C1 says that on a call with \<open>dt \<le> 1e-6\<close> the published angular velocity is the
  one of the previous cycle. The odometry message is a local variable, constructed anew in
  every call, and nothing keeps the previous angular velocity: the guard leaves the zeros
  of the freshly constructed message in place.

  Claim C1, as amended: on every call where \<open>dt\<close> is at or below \<open>1e-6\<close> (the first
  call included) the finite difference is skipped and the angular velocity published in
  the global odometry message is the zero vector of the newly constructed message,
  whatever was published on the previous cycle.
\<close>

theorem angular_default_when_dt_small:
  "proc_dt g msg \<le> 1 / 1000000 \<Longrightarrow>
   odom_angular (odom_pub (messages_out (gpsCallback K g this msg))) = \<lparr>x = 0, y = 0, z = 0\<rparr>"
  by (simp add: callback_odom_angular Point0_def)

theorem angular_default_when_dt_small_witness:
  "proc_dt (statics_after demo_filter statics_init [(demo_node, msg1), (demo_node, msg2)]) msg3
     \<le> 1 / 1000000
   \<and> odom_angular (odom_pub (messages_out (gpsCallback demo_filter
        (statics_after demo_filter statics_init [(demo_node, msg1), (demo_node, msg2)])
        demo_node msg3))) = \<lparr>x = 0, y = 0, z = 0\<rparr>"
proof -
  have dt: "proc_dt (statics_after demo_filter statics_init
                       [(demo_node, msg1), (demo_node, msg2)]) msg3 \<le> 1 / 1000000"
    by (simp add: callback_statics proc_dt_def diff_toSec_def demo_defs msg1_def msg2_def msg3_def)
  from dt angular_default_when_dt_small [OF dt] show ?thesis by blast
qed

text \<open>
  Claim C1 as stated fails on the messages \<open>msg1, msg2, msg3\<close>: the third has the stamp of
  the second, so its \<open>dt\<close> is zero, and its angular velocity is zero while the second
  cycle published \<open>24 / 25\<close> about the vertical axis.
\<close>

theorem angular_not_previous_counterexample:
  "proc_dt (statics_after demo_filter statics_init [(demo_node, msg1), (demo_node, msg2)]) msg3
     \<le> 1 / 1000000
   \<and> odom_angular (odom_pub (spin demo_filter statics_init demo_node [msg1, msg2, msg3] ! 2))
     \<noteq> odom_angular (odom_pub (spin demo_filter statics_init demo_node [msg1, msg2, msg3] ! 1))"
proof -
  have dt: "proc_dt (statics_after demo_filter statics_init
                       [(demo_node, msg1), (demo_node, msg2)]) msg3 \<le> 1 / 1000000"
    by (simp add: callback_statics proc_dt_def diff_toSec_def demo_defs msg1_def msg2_def msg3_def)
  have two: "(2::nat) = Suc (Suc 0)" and one: "(1::nat) = Suc 0"
    by simp_all
  have second:
    "z (odom_angular (odom_pub (spin demo_filter statics_init demo_node [msg1, msg2, msg3] ! 1)))
       = 24 / 25"
    unfolding one spin_nth_Suc spin_nth_0 callback_odom_angular callback_statics
    by (simp add: proc_dt_def diff_toSec_def demo_defs msg1_def msg2_def msg3_def mat_defs Let_def upt_rec)
  have third:
    "z (odom_angular (odom_pub (spin demo_filter statics_init demo_node [msg1, msg2, msg3] ! 2)))
       = 0"
    unfolding two spin_nth_Suc spin_nth_0 callback_odom_angular callback_statics
    by (simp add: proc_dt_def diff_toSec_def demo_defs msg1_def msg2_def msg3_def Point0_def)
  from second third
  have "odom_angular (odom_pub (spin demo_filter statics_init demo_node [msg1, msg2, msg3] ! 2))
          \<noteq> odom_angular (odom_pub (spin demo_filter statics_init demo_node [msg1, msg2, msg3] ! 1))"
    by auto
  with dt show ?thesis by blast
qed

section \<open>The two covariance blocks\<close>

lemma block_nth:
  "i < 3 \<Longrightarrow> j < 3 \<Longrightarrow>
   (replicate 36 (0::real))
     [0 := f 0 0, 1 := f 0 1, 2 := f 0 2, 6 := f 1 0, 7 := f 1 1, 8 := f 1 2,
      12 := f 2 0, 13 := f 2 1, 14 := f 2 2] ! (6 * i + j) = f i j"
proof -
  assume "i < 3" "j < 3"
  then have i: "i = 0 \<or> i = 1 \<or> i = 2" and j: "j = 0 \<or> j = 1 \<or> j = 2"
    by arith+
  from i j show ?thesis
    by (elim disjE) (simp_all add: nth_list_update)
qed

lemma block_zero:
  "k < 36 \<Longrightarrow> k \<notin> {0, 1, 2, 6, 7, 8, 12, 13, 14} \<Longrightarrow>
   (replicate 36 (0::real))
     [0 := a0, 1 := a1, 2 := a2, 6 := a3, 7 := a4, 8 := a5,
      12 := a6, 13 := a7, 14 := a8] ! k = 0"
  by (simp add: nth_list_update)

text \<open>
  Claim C3: on every cycle, with \<open>P\<close> the covariance read back from the filter after the
  measurement update, the entry \<open>(i, j)\<close> of the pose-covariance slot (index \<open>6 * i + j\<close> of
  the row-major 6x6 array) is \<open>P(i, j)\<close> and the same entry of the twist-covariance slot is
  \<open>P(3 + i, 3 + j)\<close>, for \<open>i, j\<close> in \<open>0..2\<close>. Both arrays have 36 entries and every other
  entry of both is zero: no entry of the cross-covariance of position and velocity is
  published.
\<close>

theorem covariance_blocks:
  "let r = gpsCallback K g this msg;
       P = getProcessNoise K (kf (node_out r));
       pose_cov = odom_pose_covariance (odom_pub (messages_out r));
       twist_cov = odom_twist_covariance (odom_pub (messages_out r))
   in (i < 3 \<and> j < 3 \<longrightarrow>
         pose_cov ! (6 * i + j) = P ! i ! j \<and> twist_cov ! (6 * i + j) = P ! (3 + i) ! (3 + j))
      \<and> length pose_cov = 36 \<and> length twist_cov = 36
      \<and> (k < 36 \<and> k \<notin> {0, 1, 2, 6, 7, 8, 12, 13, 14} \<longrightarrow> pose_cov ! k = 0 \<and> twist_cov ! k = 0)"
proof -
  define P where "P = getProcessNoise K (kf (node_out (gpsCallback K g this msg)))"
  have pose_block: "i < 3 \<and> j < 3 \<Longrightarrow>
      (replicate 36 (0::real))
       [0 := P!0!0, 1 := P!0!1, 2 := P!0!2, 6 := P!1!0, 7 := P!1!1, 8 := P!1!2,
        12 := P!2!0, 13 := P!2!1, 14 := P!2!2] ! (6 * i + j) = P ! i ! j"
    using block_nth [of i j "\<lambda>i j. P ! i ! j"] by simp
  have twist_block: "i < 3 \<and> j < 3 \<Longrightarrow>
      (replicate 36 (0::real))
       [0 := P!3!3, 1 := P!3!4, 2 := P!3!5, 6 := P!4!3, 7 := P!4!4, 8 := P!4!5,
        12 := P!5!3, 13 := P!5!4, 14 := P!5!5] ! (6 * i + j) = P ! (3 + i) ! (3 + j)"
    using block_nth [of i j "\<lambda>i j. P ! (3 + i) ! (3 + j)"] by simp
  show ?thesis
    unfolding Let_def callback_odom_pose_covariance callback_odom_twist_covariance
      P_def [symmetric]
    using pose_block twist_block by (simp add: block_zero)
qed

theorem covariance_blocks_witness:
  "(1::nat) < 3 \<and> (2::nat) < 3
   \<and> odom_pose_covariance (odom_pub (messages_out
        (gpsCallback demo_filter statics_init demo_node msg2))) ! 8 = 12
   \<and> odom_twist_covariance (odom_pub (messages_out
        (gpsCallback demo_filter statics_init demo_node msg2))) ! 8 = 45
   \<and> (3::nat) < 36 \<and> (3::nat) \<notin> {0, 1, 2, 6, 7, 8, 12, 13, 14}
   \<and> odom_pose_covariance (odom_pub (messages_out
        (gpsCallback demo_filter statics_init demo_node msg2))) ! 3 = 0
   \<and> odom_twist_covariance (odom_pub (messages_out
        (gpsCallback demo_filter statics_init demo_node msg2))) ! 3 = 0"
proof -
  have P: "getProcessNoise demo_filter
             (kf (node_out (gpsCallback demo_filter statics_init demo_node msg2)))
           = map (\<lambda>i. map (\<lambda>j. real (10 * i + j)) [0..<6]) [0..<(6::nat)]"
    by (simp add: callback_kf demo_defs msg2_def)
  have entries:
    "map (\<lambda>i. map (\<lambda>j. real (10 * i + j)) [0..<6]) [0..<(6::nat)] ! 1 ! 2 = 12"
    "map (\<lambda>i. map (\<lambda>j. real (10 * i + j)) [0..<6]) [0..<(6::nat)] ! (3 + 1) ! (3 + 2) = 45"
    by simp_all
  show ?thesis
    using covariance_blocks [where K = demo_filter and g = statics_init and this = demo_node
        and msg = msg2 and i = 1 and j = 2 and k = 3]
    unfolding Let_def P entries by simp
qed

section \<open>The local odometry message\<close>

text \<open>
  Claim C4: on every cycle the position of the local odometry message is the position of
  the global odometry message minus the position of the initial pose, component by
  component, and every other field of the local message (linear velocity, orientation,
  angular velocity, both covariance arrays, header and child frame) is the field of the
  global message.
\<close>

theorem local_odometry:
  "let odom_msg = odom_pub (messages_out (gpsCallback K g this msg));
       localOdom_msg = localOdom_pub (messages_out (gpsCallback K g this msg));
       p0 = position (pose (initPose this))
   in x (odom_position localOdom_msg) = x (odom_position odom_msg) - x p0
      \<and> y (odom_position localOdom_msg) = y (odom_position odom_msg) - y p0
      \<and> z (odom_position localOdom_msg) = z (odom_position odom_msg) - z p0
      \<and> odom_linear localOdom_msg = odom_linear odom_msg
      \<and> odom_orientation localOdom_msg = odom_orientation odom_msg
      \<and> odom_angular localOdom_msg = odom_angular odom_msg
      \<and> odom_pose_covariance localOdom_msg = odom_pose_covariance odom_msg
      \<and> odom_twist_covariance localOdom_msg = odom_twist_covariance odom_msg
      \<and> odom_header localOdom_msg = odom_header odom_msg
      \<and> odom_child_frame_id localOdom_msg = odom_child_frame_id odom_msg"
  by (simp add: callback_local Let_def odom_fields)

section \<open>The pose relay\<close>

text \<open>
  Claim C5: on every cycle the position and orientation of the pose relay message are
  those of the input message, whatever the filter and its state, and its header is the
  header of the input (same stamp and sequence number) with the frame identifier replaced
  by the fixed \<open>fcu\<close>.
\<close>

theorem pose_relay:
  "let mocap_msg = mocap_pub (messages_out (gpsCallback K g this msg))
   in position (pose mocap_msg) = position (pose msg)
      \<and> orientation (pose mocap_msg) = orientation (pose msg)
      \<and> frame_id (header mocap_msg) = ''fcu''
      \<and> stamp (header mocap_msg) = stamp (header msg)
      \<and> seq (header mocap_msg) = seq (header msg)"
  by (simp add: callback_mocap)

section \<open>No measurement is rejected\<close>

text \<open>
  Claim C6: for every message the filter object the callback leaves behind is the result
  of the time update followed by the measurement update with the three coordinates of the
  position of that message: no branch skips the update. The threshold of the hypothesis
  test is not consulted: the callback returns the same with any other value in its place.
\<close>

theorem measurement_always_applied:
  "kf (node_out (gpsCallback K g this msg)) =
     measurementUpdate K
       [x (position (pose msg)), y (position (pose msg)), z (position (pose msg))]
       (meas_dt_of g msg) (processUpdate K (proc_dt g msg) (kf this))
   \<and> gpsCallback_thr K threshold g this msg = gpsCallback K g this msg"
  by (simp add: callback_kf) (simp add: gpsCallback_def gpsCallback_thr_def Let_def)

section \<open>The previous rotation\<close>

text \<open>
  Claim C9: after every call the stored previous rotation is the rotation matrix of the
  orientation of the message of that call, whether or not the time step passed the guard
  of the angular velocity. Hence a following call (by any node, on a message \<open>msg'\<close>) whose
  time step exceeds \<open>1e-6\<close> differentiates against the orientation of the call just before.
\<close>

theorem previous_rotation_updated:
  "R_prev (statics_out (gpsCallback K g this msg)) = toRotationMatrix (orientation (pose msg))
   \<and> (let g' = statics_out (gpsCallback K g this msg);
           dt = proc_dt g' msg'
       in dt > 1 / 1000000 \<longrightarrow>
          odom_angular (odom_pub (messages_out (gpsCallback K' g' this' msg'))) =
            (let w_hat = w_hat_of (toRotationMatrix (orientation (pose msg')))
                           (toRotationMatrix (orientation (pose msg))) dt
             in \<lparr>x = w_hat ! 2 ! 1, y = w_hat ! 0 ! 2, z = w_hat ! 1 ! 0\<rparr>))"
  by (simp add: callback_statics callback_odom_angular Let_def)

theorem previous_rotation_updated_witness:
  "R_prev (statics_out (gpsCallback demo_filter statics_init demo_node msg2))
     = [ [- 7 / 25, - 24 / 25, 0], [24 / 25, - 7 / 25, 0], [0, 0, 1] ]
   \<and> proc_dt (statics_out (gpsCallback demo_filter statics_init demo_node msg2)) msg4
       > 1 / 1000000
   \<and> odom_angular (odom_pub (messages_out (gpsCallback demo_filter
        (statics_out (gpsCallback demo_filter statics_init demo_node msg2)) demo_node msg4)))
       = \<lparr>x = 0, y = 0, z = - 24 / 25\<rparr>"
proof -
  have dt: "proc_dt (statics_out (gpsCallback demo_filter statics_init demo_node msg2)) msg4 = 1"
    by (simp add: callback_statics proc_dt_def diff_toSec_def demo_defs msg2_def msg4_def)
  have R: "toRotationMatrix (orientation (pose msg2))
             = [ [- 7 / 25, - 24 / 25, 0], [24 / 25, - 7 / 25, 0], [0, 0, 1] ]"
    by (simp add: demo_defs msg2_def toRotationMatrix_def Let_def)
  have w: "w_hat_of (toRotationMatrix (orientation (pose msg4)))
             [ [- 7 / 25, - 24 / 25, 0], [24 / 25, - 7 / 25, 0], [0, 0, 1] ] 1
           = [ [32 / 25, 24 / 25, 0], [- 24 / 25, 32 / 25, 0], [0, 0, 0] ]"
    by (simp add: demo_defs msg4_def mat_defs Let_def upt_rec)
  show ?thesis
    using previous_rotation_updated [where K = demo_filter and K' = demo_filter
        and g = statics_init and this = demo_node and this' = demo_node
        and msg = msg2 and msg' = msg4]
    unfolding Let_def dt R w by simp
qed

section \<open>The two clocks\<close>

lemma statics_after_clocks:
  "t_last_proc g = t_last_meas g \<Longrightarrow>
   t_last_proc (statics_after K g calls) = t_last_meas (statics_after K g calls)"
  by (induction calls arbitrary: g) (auto simp: callback_statics)

text \<open>
  Claim C10: in a process that starts with the statics uninitialised, on every call (after
  any sequence of earlier calls) the time step handed to the measurement update is the
  time step handed to the time update: both previous stamps are seeded by the first
  message and overwritten by every message, so they are equal whenever a call begins.
\<close>

theorem clocks_agree:
  "let g = statics_after K statics_init calls
   in t_last_meas g = t_last_proc g
      \<and> meas_dt_of g msg = proc_dt g msg
      \<and> kf (node_out (gpsCallback K g this msg)) =
          measurementUpdate K
            [x (position (pose msg)), y (position (pose msg)), z (position (pose msg))]
            (proc_dt g msg) (processUpdate K (proc_dt g msg) (kf this))"
proof -
  have same: "t_last_proc (statics_after K statics_init calls)
                = t_last_meas (statics_after K statics_init calls)"
    by (rule statics_after_clocks) (simp add: statics_init_def)
  then have "meas_dt_of (statics_after K statics_init calls) msg
               = proc_dt (statics_after K statics_init calls) msg"
    by (simp add: meas_dt_of_def proc_dt_def)
  with same show ?thesis
    by (simp add: Let_def callback_kf)
qed

section \<open>Where the state of the callback lives\<close>

lemma run_process_single:
  "\<forall>e \<in> set events. fst e = i \<Longrightarrow>
   outputs_of i (run_process K g nodes events) = spin K g (nodes i) (map snd events)"
proof (induction events arbitrary: g nodes)
  case Nil
  then show ?case by (simp add: outputs_of_def)
next
  case (Cons e events)
  obtain j msg where e: "e = (j, msg)" by (cases e)
  with Cons.prems have j: "j = i" and rest: "\<forall>e \<in> set events. fst e = i"
    by simp_all
  let ?r = "gpsCallback K g (nodes i) msg"
  have "outputs_of i (run_process K g nodes (e # events))
          = messages_out ?r
            # outputs_of i (run_process K (statics_out ?r) (nodes(i := node_out ?r)) events)"
    by (simp add: e j outputs_of_def Let_def)
  also have "outputs_of i (run_process K (statics_out ?r) (nodes(i := node_out ?r)) events)
          = spin K (statics_out ?r) (node_out ?r) (map snd events)"
    using Cons.IH [OF rest, of "statics_out ?r" "nodes(i := node_out ?r)"]
    by (simp only: fun_upd_same)
  finally show ?case
    by (simp add: e Let_def)
qed

text \<open>
  Claim C2 says that the previous stamps and the previous rotation are held per node, so
  that the outputs of a node do not change when another node of the same process handles
  its own messages in between. They are function-local statics of the one member function:
  one copy for the whole process.

  Claim C2, as amended: the two previous stamps and the previous rotation are
  function-local static storage, one copy per process shared by every node instance; each
  call of the callback, by whichever instance, overwrites them with the stamp and the
  rotation of its own message. The outputs of an instance depend only on its own message
  stream when no other instance's callback runs in the process (as under \<open>main\<close>, which
  constructs a single node).
\<close>

theorem statics_shared_single_instance_isolated:
  "statics_out (gpsCallback K g this msg) =
     \<lparr>t_last_proc = Some (stamp (header msg)), t_last_meas = Some (stamp (header msg)),
      R_prev = toRotationMatrix (orientation (pose msg))\<rparr>
   \<and> (list_all (\<lambda>e. fst e = i) events \<longrightarrow>
        outputs_of i (run_process K g nodes events) = spin K g (nodes i) (map snd events))"
  using run_process_single [of events i K g nodes] by (simp add: callback_statics list_all_iff)

theorem statics_shared_single_instance_isolated_witness:
  "statics_out (gpsCallback demo_filter statics_init demo_node msg2) =
     \<lparr>t_last_proc = Some \<lparr>sec = 1, nsec = 0\<rparr>, t_last_meas = Some \<lparr>sec = 1, nsec = 0\<rparr>,
      R_prev = [ [- 7 / 25, - 24 / 25, 0], [24 / 25, - 7 / 25, 0], [0, 0, 1] ]\<rparr>
   \<and> list_all (\<lambda>e. fst e = (0::nat)) [(0, msg1), (0, msg4)]
   \<and> outputs_of 0 (run_process demo_filter statics_init demo_nodes [(0, msg1), (0, msg4)])
       = spin demo_filter statics_init demo_node [msg1, msg4]"
proof -
  have all: "list_all (\<lambda>e. fst e = (0::nat)) [(0, msg1), (0, msg4)]"
    by simp
  have R: "toRotationMatrix (orientation (pose msg2))
             = [ [- 7 / 25, - 24 / 25, 0], [24 / 25, - 7 / 25, 0], [0, 0, 1] ]"
    by (simp add: demo_defs msg2_def toRotationMatrix_def Let_def)
  have st: "stamp (header msg2) = \<lparr>sec = 1, nsec = 0\<rparr>"
    by (simp add: demo_defs msg2_def)
  show ?thesis
    using all statics_shared_single_instance_isolated [where K = demo_filter and g = statics_init
        and this = demo_node and msg = msg2 and events = "[(0, msg1), (0, msg4)]" and i = 0
        and nodes = demo_nodes]
    unfolding R st by (simp add: demo_nodes_def)
qed

text \<open>
  Claim C2 as stated fails with two nodes: node 0 receives \<open>msg1\<close> and \<open>msg4\<close>, node 1
  receives \<open>msg2\<close> in between. Alone, node 0 publishes the angular velocity zero on
  \<open>msg4\<close>; interleaved, it differentiates against the orientation of \<open>msg2\<close>, over the time
  since \<open>msg2\<close>, and publishes \<open>- 24 / 25\<close> about the vertical axis.
\<close>

theorem interleaved_instances_counterexample:
  "outputs_of 0 (run_process demo_filter statics_init demo_nodes [(0, msg1), (1, msg2), (0, msg4)])
     \<noteq> spin demo_filter statics_init (demo_nodes 0) (outputs_of 0 [(0, msg1), (1, msg2), (0, msg4)])"
proof -
  have one: "(1::nat) = Suc 0"
    by simp
  have own: "outputs_of 0 [(0::nat, msg1), (1, msg2), (0, msg4)] = [msg1, msg4]"
    by (simp add: outputs_of_def)
  have alone:
    "z (odom_angular (odom_pub (spin demo_filter statics_init (demo_nodes 0)
          (outputs_of 0 [(0, msg1), (1, msg2), (0, msg4)]) ! 1))) = 0"
    unfolding own
    unfolding one demo_nodes_def spin_nth_Suc spin_nth_0 callback_odom_angular callback_statics
    by (simp add: proc_dt_def diff_toSec_def demo_defs msg1_def msg4_def mat_defs Let_def upt_rec)
  have interleaved:
    "z (odom_angular (odom_pub (outputs_of 0 (run_process demo_filter statics_init demo_nodes
          [(0, msg1), (1, msg2), (0, msg4)]) ! 1))) = - 24 / 25"
    apply (simp add: outputs_of_def Let_def callback_odom_angular callback_statics)
    apply (simp add: proc_dt_def diff_toSec_def demo_defs demo_nodes_def msg1_def msg2_def msg4_def mat_defs Let_def upt_rec)
    done
  from alone interleaved show ?thesis
    by auto
qed

section \<open>Startup\<close>

lemma ctor_throws:
  "param (publish_tf_param params) True \<Longrightarrow> child_frame_id_param params = Some [] \<Longrightarrow>
   gpsOdom_ctor K asserts params first_msg
     = Inl (runtime_error ''gps_odom: child_frame_id required for publishing tf'')"
  by (simp add: gpsOdom_ctor_def param_def Let_def)

lemma ctor_returns:
  "\<not> (param (publish_tf_param params) True \<and> child_frame_id_param params = Some []) \<Longrightarrow>
   0 < param (gps_fps_param params) 20 \<Longrightarrow>
   gpsOdom_ctor K asserts params first_msg =
     Inr \<lparr>kf = initialize K
                 [x (position (pose first_msg)), y (position (pose first_msg)),
                  z (position (pose first_msg)), 0, 0, 0]
                 (scale 1 Identity6)
                 (asDiagonal (proc_noise_diag (param (max_accel_param params) 5)
                                (1 / param (gps_fps_param params) 20)))
                 (asDiagonal meas_noise_diag) (kf_new K),
          initPose = first_msg,
          publish_tf = param (publish_tf_param params) True,
          child_frame_id = param (child_frame_id_param params) ''base_link''\<rparr>"
  by (auto simp add: gpsOdom_ctor_def param_def Let_def split: option.splits)

text \<open>
  Claim C7: when the constructor does not throw and the rate is positive, with
  \<open>dt = 1 / rate\<close>, the filter is initialised with the diagonal process noise
  \<open>(0.5 * a_max * dt\<^sup>2)\<^sup>2\<close> on the three position axes and \<open>(a_max * dt)\<^sup>2\<close> on the three
  velocity axes, and with the diagonal measurement noise \<open>(1e-2)\<^sup>2\<close> on each axis, a
  constant that no parameter enters. The numbers are reals: the rounding of the doubles
  is not part of the statement.
\<close>

theorem noise_parameters:
  "\<not> (param (publish_tf_param params) True \<and> child_frame_id_param params = Some []) \<Longrightarrow>
   0 < param (gps_fps_param params) 20 \<Longrightarrow>
   (let a_max = param (max_accel_param params) 5;
        dt = 1 / param (gps_fps_param params) 20;
        p = position (pose first_msg)
    in gpsOdom_ctor K asserts params first_msg =
         Inr \<lparr>kf = initialize K [x p, y p, z p, 0, 0, 0] (scale 1 Identity6)
                     (asDiagonal
                        [(0.5 * a_max * dt\<^sup>2)\<^sup>2, (0.5 * a_max * dt\<^sup>2)\<^sup>2, (0.5 * a_max * dt\<^sup>2)\<^sup>2,
                         (a_max * dt)\<^sup>2, (a_max * dt)\<^sup>2, (a_max * dt)\<^sup>2])
                     (asDiagonal [(1 / 100)\<^sup>2, (1 / 100)\<^sup>2, (1 / 100)\<^sup>2])
                     (kf_new K),
              initPose = first_msg,
              publish_tf = param (publish_tf_param params) True,
              child_frame_id = param (child_frame_id_param params) ''base_link''\<rparr>)"
proof -
  assume ok: "\<not> (param (publish_tf_param params) True \<and> child_frame_id_param params = Some [])"
    and fps: "0 < param (gps_fps_param params) 20"
  have q: "proc_noise_diag a d =
      [(0.5 * a * d\<^sup>2)\<^sup>2, (0.5 * a * d\<^sup>2)\<^sup>2, (0.5 * a * d\<^sup>2)\<^sup>2, (a * d)\<^sup>2, (a * d)\<^sup>2, (a * d)\<^sup>2]"
    for a d
    by (simp add: proc_noise_diag_def array_square_def power2_eq_square)
  have r: "meas_noise_diag = [(1 / 100)\<^sup>2, (1 / 100)\<^sup>2, (1 / 100)\<^sup>2]"
    by (simp add: meas_noise_diag_def array_square_def power2_eq_square)
  show ?thesis
    unfolding Let_def ctor_returns [OF ok fps] q r by simp
qed

theorem noise_parameters_witness:
  "\<not> (param (publish_tf_param no_params) True \<and> child_frame_id_param no_params = Some [])
   \<and> (0::real) < param (gps_fps_param no_params) 20
   \<and> gpsOdom_ctor demo_filter True no_params msg1 =
       Inr \<lparr>kf = \<lparr>kf_state = [4, 5, 6, 0, 0, 0],
                   kf_cov = scale 1 Identity6,
                   kf_proc_noise =
                     asDiagonal [1 / 25600, 1 / 25600, 1 / 25600, 1 / 16, 1 / 16, 1 / 16],
                   kf_meas_noise = asDiagonal [1 / 10000, 1 / 10000, 1 / 10000]\<rparr>,
            initPose = msg1, publish_tf = True, child_frame_id = ''base_link''\<rparr>"
proof -
  have ok: "\<not> (param (publish_tf_param no_params) True
               \<and> child_frame_id_param no_params = Some [])"
    by (simp add: no_params_def)
  have fps: "(0::real) < param (gps_fps_param no_params) 20"
    by (simp add: no_params_def param_def)
  have p: "position (pose msg1) = \<lparr>x = 4, y = 5, z = 6\<rparr>"
    by (simp add: msg1_def mk_msg_def)
  show ?thesis
    using ok fps
      noise_parameters [OF ok fps, where K = demo_filter and asserts = True and first_msg = msg1]
    unfolding Let_def p
    by (simp add: demo_filter_def demo_initialize_def no_params_def param_def power2_eq_square)
qed

text \<open>
  Claim C8 says that construction fails, with exit code 1, when the transform is to be
  published and no child frame identifier is provided. A child frame identifier that is
  not provided takes the default \<open>base_link\<close>, which is not empty: the constructor throws
  only when the parameter is set, and set to the empty string.

  Claim C8, as amended: if transform publishing is in force (the flag unset or set to true)
  and the child frame identifier parameter is set to the empty string, the constructor
  throws its runtime error and \<open>main\<close> returns 1. Otherwise, when the rate is positive,
  construction succeeds and \<open>main\<close> returns 0 once \<open>spin\<close> has returned.
\<close>

theorem startup_exit_code:
  "(param (publish_tf_param params) True \<and> child_frame_id_param params = Some [] \<longrightarrow>
      gpsOdom_ctor K asserts params first_msg
        = Inl (runtime_error ''gps_odom: child_frame_id required for publishing tf'')
      \<and> fst (main K asserts params first_msg msgs) = Returned 1)
   \<and> (\<not> (param (publish_tf_param params) True \<and> child_frame_id_param params = Some [])
        \<and> 0 < param (gps_fps_param params) 20 \<longrightarrow>
      (\<exists>node. gpsOdom_ctor K asserts params first_msg = Inr node)
      \<and> fst (main K asserts params first_msg msgs) = Returned 0)"
proof (intro conjI impI)
  assume a: "param (publish_tf_param params) True \<and> child_frame_id_param params = Some []"
  then show "gpsOdom_ctor K asserts params first_msg
        = Inl (runtime_error ''gps_odom: child_frame_id required for publishing tf'')"
    by (simp add: ctor_throws)
  with a show "fst (main K asserts params first_msg msgs) = Returned 1"
    by (simp add: main_def)
next
  assume b: "\<not> (param (publish_tf_param params) True \<and> child_frame_id_param params = Some [])
        \<and> 0 < param (gps_fps_param params) 20"
  then show "\<exists>node. gpsOdom_ctor K asserts params first_msg = Inr node"
    using ctor_returns [of params K asserts first_msg] by blast
  from b show "fst (main K asserts params first_msg msgs) = Returned 0"
    using ctor_returns [of params K asserts first_msg] by (simp add: main_def)
qed

theorem startup_exit_code_witness:
  "(param (publish_tf_param (no_params\<lparr>child_frame_id_param := Some []\<rparr>)) True
      \<and> child_frame_id_param (no_params\<lparr>child_frame_id_param := Some []\<rparr>) = Some []
      \<and> gpsOdom_ctor demo_filter True (no_params\<lparr>child_frame_id_param := Some []\<rparr>) msg1
          = Inl (runtime_error ''gps_odom: child_frame_id required for publishing tf'')
      \<and> fst (main demo_filter True (no_params\<lparr>child_frame_id_param := Some []\<rparr>) msg1 [msg2])
          = Returned 1)
   \<and> (\<not> (param (publish_tf_param (no_params\<lparr>child_frame_id_param := Some ''quad''\<rparr>)) True
          \<and> child_frame_id_param (no_params\<lparr>child_frame_id_param := Some ''quad''\<rparr>) = Some [])
      \<and> (0::real) < param (gps_fps_param (no_params\<lparr>child_frame_id_param := Some ''quad''\<rparr>)) 20
      \<and> (\<exists>node. gpsOdom_ctor demo_filter True
                   (no_params\<lparr>child_frame_id_param := Some ''quad''\<rparr>) msg1 = Inr node)
      \<and> fst (main demo_filter True (no_params\<lparr>child_frame_id_param := Some ''quad''\<rparr>) msg1 [msg2])
          = Returned 0)"
proof -
  have a: "param (publish_tf_param (no_params\<lparr>child_frame_id_param := Some []\<rparr>)) True
      \<and> child_frame_id_param (no_params\<lparr>child_frame_id_param := Some []\<rparr>) = Some []"
    by (simp add: no_params_def param_def)
  have b: "\<not> (param (publish_tf_param (no_params\<lparr>child_frame_id_param := Some ''quad''\<rparr>)) True
          \<and> child_frame_id_param (no_params\<lparr>child_frame_id_param := Some ''quad''\<rparr>) = Some [])
      \<and> (0::real) < param (gps_fps_param (no_params\<lparr>child_frame_id_param := Some ''quad''\<rparr>)) 20"
    by (simp add: no_params_def param_def)
  show ?thesis
    using a b
      startup_exit_code [where params = "no_params\<lparr>child_frame_id_param := Some []\<rparr>"
        and K = demo_filter and asserts = True and first_msg = msg1 and msgs = "[msg2]"]
      startup_exit_code [where params = "no_params\<lparr>child_frame_id_param := Some ''quad''\<rparr>"
        and K = demo_filter and asserts = True and first_msg = msg1 and msgs = "[msg2]"]
    by blast
qed

text \<open>
  Claim C8 as stated fails when the flag is set and the child frame identifier is not
  provided at all: the constructor returns a node and \<open>main\<close> returns 0.
\<close>

theorem no_child_frame_id_counterexample:
  "param (publish_tf_param (no_params\<lparr>publish_tf_param := Some True\<rparr>)) True
   \<and> child_frame_id_param (no_params\<lparr>publish_tf_param := Some True\<rparr>) = None
   \<and> gpsOdom_ctor demo_filter True (no_params\<lparr>publish_tf_param := Some True\<rparr>) msg1
       \<noteq> Inl (runtime_error ''gps_odom: child_frame_id required for publishing tf'')
   \<and> fst (main demo_filter True (no_params\<lparr>publish_tf_param := Some True\<rparr>) msg1 []) = Returned 0"
  by (simp add: main_def gpsOdom_ctor_def no_params_def param_def Let_def)

end
